theory Spec2Isabelle
  imports Complex_Main
begin

section \<open>FAO-56 Penman-Monteith crop evapotranspiration (pyeto_crop/fao_crop.py)\<close>

text \<open>
  The module is nine one-line arithmetic functions and their combiner
  \<open>penman_monteith\<close>. The embedding reads them on scalar Python floats, with the
  arithmetic taken as exact arithmetic on \<open>real\<close>: rounding, overflow and underflow of
  IEEE doubles are outside the model. What is kept of the numeric runtime is what
  decides whether a call returns or raises:
  \<^item> the Python operator \<open>/\<close> on scalars raises \<open>ZeroDivisionError\<close> on a zero divisor;
  \<open>+\<close>, \<open>-\<close>, \<open>*\<close> and \<open>**\<close> with the constant exponents used here return a value;
  \<^item> \<open>np.log\<close> never raises: on a positive argument it returns the logarithm, on zero
  or a negative argument it returns \<open>-inf\<close> or \<open>nan\<close> (with a warning);
  \<^item> arithmetic on the \<open>np.float64\<close> values that \<open>np.log\<close> returns never raises either:
  a zero divisor gives \<open>inf\<close>, \<open>-inf\<close> or \<open>nan\<close>, and \<open>inf\<close>, \<open>-inf\<close> and \<open>nan\<close> stay
  non-finite under the multiplication and the division by a finite float that
  \<open>ra\<close> applies to them.
\<close>

subsection \<open>Outcomes of a call\<close>

text \<open>
  \<open>ZeroDivisionError\<close> and \<open>TypeError\<close> are the two exceptions the interpreter can
  raise in this module (a zero divisor, a call that omits a parameter without
  default). \<open>DomainError\<close> is the error kind of the specification; the module
  defines no such exception and has no \<open>raise\<close> statement.
\<close>

datatype py_error = ZeroDivisionError | TypeError | DomainError

type_synonym 'a result = "py_error + 'a"

text \<open>
  A value of type \<open>np.float64\<close>: a finite number, or one of \<open>inf\<close>, \<open>-inf\<close>, \<open>nan\<close>.
  The three non-finite values are kept as one: which of them arises depends on the
  sign of a floating-point zero, which \<open>real\<close> does not have.
\<close>

datatype float64 = Finite real | NonFinite

text \<open>Python's scalar \<open>a / b\<close>.\<close>

definition py_div :: "real \<Rightarrow> real \<Rightarrow> real result" where
  "py_div a b = (if b = 0 then Inl ZeroDivisionError else Inr (a / b))"

text \<open>\<open>np.log(x)\<close> on a scalar.\<close>

definition np_log :: "real \<Rightarrow> float64" where
  "np_log x = (if 0 < x then Finite (ln x) else NonFinite)"

text \<open>\<open>x * y\<close> on two \<open>np.float64\<close> values.\<close>

fun np_mul :: "float64 \<Rightarrow> float64 \<Rightarrow> float64" where
  "np_mul (Finite a) (Finite b) = Finite (a * b)"
| "np_mul _ _ = NonFinite"

text \<open>\<open>x / y\<close> with \<open>x\<close> an \<open>np.float64\<close> and \<open>y\<close> a finite Python float.\<close>

fun np_div :: "float64 \<Rightarrow> real \<Rightarrow> float64" where
  "np_div (Finite a) b = (if b = 0 then NonFinite else Finite (a / b))"
| "np_div NonFinite b = NonFinite"

subsection \<open>Air and thermodynamic properties\<close>

text \<open>\<^verbatim>\<open>return 2.501 - (2.361 * 10**(-3)) * t\<close>\<close>

definition lat :: "real \<Rightarrow> real result" where
  "lat t = Inr (2.501 - (2.361 * 10 powi (-3)) * t)"

text \<open>\<^verbatim>\<open>return pres / ((1.01 * (t + 273)) * 0.287)\<close>\<close>

definition pa :: "real \<Rightarrow> real \<Rightarrow> real result" where
  "pa pres t = py_div pres ((1.01 * (t + 273)) * 0.287)"

subsection \<open>Aerodynamic resistance\<close>

text \<open>
  \<^verbatim>\<open>return (np.log((zm - d) / zom) * np.log((zh - d) / zoh)) / (k**(2) * ws)\<close>
  The two inner quotients are scalar divisions and may raise; the outer division
  has an \<open>np.float64\<close> numerator and does not. The parameter \<open>h\<close> is not read.
\<close>

definition ra :: "real \<Rightarrow> real \<Rightarrow> real \<Rightarrow> real \<Rightarrow> real \<Rightarrow> real \<Rightarrow> real \<Rightarrow> real \<Rightarrow> float64 result" where
  "ra d zom zoh ws h zh zm k =
     (case py_div (zm - d) zom of
        Inl e \<Rightarrow> Inl e
      | Inr qm \<Rightarrow>
          (case py_div (zh - d) zoh of
             Inl e \<Rightarrow> Inl e
           | Inr qh \<Rightarrow> Inr (np_div (np_mul (np_log qm) (np_log qh)) (k ^ 2 * ws))))"

subsection \<open>Canopy geometry and surface resistance\<close>

text \<open>\<^verbatim>\<open>return 2/3 * h\<close>\<close>

definition d :: "real \<Rightarrow> real result" where
  "d h = Inr (2 / 3 * h)"

text \<open>\<^verbatim>\<open>return 0.123 * h\<close>\<close>

definition zom :: "real \<Rightarrow> real result" where
  "zom h = Inr (0.123 * h)"

text \<open>\<^verbatim>\<open>return 0.1 * zom\<close>\<close>

definition zoh :: "real \<Rightarrow> real result" where
  "zoh z = Inr (0.1 * z)"

text \<open>\<^verbatim>\<open>return rl / LAIactive\<close>\<close>

definition rs :: "real \<Rightarrow> real \<Rightarrow> real result" where
  "rs la rl = py_div rl la"

text \<open>\<^verbatim>\<open>return 0.5 * LAI\<close>\<close>

definition LAIactive :: "real \<Rightarrow> real result" where
  "LAIactive l = Inr (0.5 * l)"

text \<open>\<^verbatim>\<open>return 24 * h\<close>\<close>

definition LAI :: "real \<Rightarrow> real result" where
  "LAI h = Inr (24 * h)"

subsection \<open>The Penman-Monteith combiner\<close>

text \<open>
  \<^verbatim>\<open>
  a1 = delta_svp * (net_rad - shf)/86400 + pa * cp * ((svp - avp) / (ra))
  a2 = delta_svp + psy * (1 + (rs / ra))
  a3 = 1 / lat
  return (a1 / a2) * a3 * 86400
  \<close>
  Four scalar divisions can raise, in this order: by \<open>ra\<close> (twice), by \<open>lat\<close>, by
  \<open>a2\<close>. The parameters \<open>t\<close>, \<open>ws\<close>, \<open>d\<close> and \<open>pres\<close> are not read.
\<close>

definition penman_monteith ::
  "real \<Rightarrow> real \<Rightarrow> real \<Rightarrow> real \<Rightarrow> real \<Rightarrow> real \<Rightarrow> real \<Rightarrow> real \<Rightarrow> real \<Rightarrow> real \<Rightarrow> real \<Rightarrow> real \<Rightarrow> real \<Rightarrow> real \<Rightarrow> real
     \<Rightarrow> real result" where
  "penman_monteith =
     (\<lambda>lat net_rad t ws svp avp delta_svp d psy ra pa pres rs cp shf.
        case py_div (svp - avp) ra of
          Inl e \<Rightarrow> Inl e
        | Inr q1 \<Rightarrow>
            (let a1 = delta_svp * (net_rad - shf) / 86400 + pa * cp * q1 in
             case py_div rs ra of
               Inl e \<Rightarrow> Inl e
             | Inr q2 \<Rightarrow>
                 (let a2 = delta_svp + psy * (1 + q2) in
                  case py_div 1 lat of
                    Inl e \<Rightarrow> Inl e
                  | Inr a3 \<Rightarrow>
                      (case py_div a1 a2 of
                         Inl e \<Rightarrow> Inl e
                       | Inr q3 \<Rightarrow> Inr (q3 * a3 * 86400)))))"

subsection \<open>Calls that omit parameters\<close>

text \<open>
  A parameter passed is \<open>Some v\<close>, a parameter omitted is \<open>None\<close>. An omitted
  parameter takes the default of the \<open>def\<close> line; where the \<open>def\<close> line gives none,
  the call raises \<open>TypeError\<close> before the body runs.
\<close>

definition arg_or :: "real \<Rightarrow> real option \<Rightarrow> real" where
  "arg_or dflt a = (case a of None \<Rightarrow> dflt | Some v \<Rightarrow> v)"

text \<open>\<^verbatim>\<open>def d(h=0.12)\<close>, \<^verbatim>\<open>def zom(h=0.12)\<close>, \<^verbatim>\<open>def LAI(h=0.12)\<close>\<close>

definition d_call :: "real option \<Rightarrow> real result" where
  "d_call h = d (arg_or 0.12 h)"

definition zom_call :: "real option \<Rightarrow> real result" where
  "zom_call h = zom (arg_or 0.12 h)"

definition LAI_call :: "real option \<Rightarrow> real result" where
  "LAI_call h = LAI (arg_or 0.12 h)"

text \<open>\<^verbatim>\<open>def ra(d, zom, zoh, ws, h=0.12, zh=2, zm=10, k=0.41)\<close>\<close>

definition ra_call ::
  "real \<Rightarrow> real \<Rightarrow> real \<Rightarrow> real \<Rightarrow> real option \<Rightarrow> real option \<Rightarrow> real option \<Rightarrow> real option
     \<Rightarrow> float64 result" where
  "ra_call d0 zom0 zoh0 ws h zh zm k =
     ra d0 zom0 zoh0 ws (arg_or 0.12 h) (arg_or 2 zh) (arg_or 10 zm) (arg_or 0.41 k)"

text \<open>\<^verbatim>\<open>def rs(LAIactive, rl)\<close>: no default for \<open>rl\<close>.\<close>

definition rs_call :: "real \<Rightarrow> real option \<Rightarrow> real result" where
  "rs_call la rl = (case rl of None \<Rightarrow> Inl TypeError | Some r \<Rightarrow> rs la r)"

text \<open>
  \<^verbatim>\<open>def penman_monteith(lat, net_rad, t, ws, svp, avp, delta_svp, d, psy, ra, pa, pres,
                      rs=78, cp=0.001013, shf=0.0)\<close>
\<close>

definition penman_monteith_call ::
  "real \<Rightarrow> real \<Rightarrow> real \<Rightarrow> real \<Rightarrow> real \<Rightarrow> real \<Rightarrow> real \<Rightarrow> real \<Rightarrow> real \<Rightarrow> real \<Rightarrow> real \<Rightarrow> real
     \<Rightarrow> real option \<Rightarrow> real option \<Rightarrow> real option \<Rightarrow> real result" where
  "penman_monteith_call =
     (\<lambda>lat net_rad t ws svp avp delta_svp d psy ra pa pres rs cp shf.
        penman_monteith lat net_rad t ws svp avp delta_svp d psy ra pa pres
          (arg_or 78 rs) (arg_or 0.001013 cp) (arg_or 0.0 shf))"

subsection \<open>The closed forms of the specification\<close>

text \<open>
  The specification's Penman-Monteith expression, written from its words:
  term1 = delta_svp (net_rad - shf) / 86400 + pa cp (svp - avp) / ra,
  term2 = delta_svp + psy (1 + rs / ra), ET = (term1 / term2) (1 / lat) 86400.
\<close>

definition pm_term1 :: "real \<Rightarrow> real \<Rightarrow> real \<Rightarrow> real \<Rightarrow> real \<Rightarrow> real \<Rightarrow> real \<Rightarrow> real \<Rightarrow> real" where
  "pm_term1 net_rad svp avp delta_svp ra0 pa0 cp shf =
     delta_svp * (net_rad - shf) / 86400 + pa0 * cp * (svp - avp) / ra0"

definition pm_term2 :: "real \<Rightarrow> real \<Rightarrow> real \<Rightarrow> real \<Rightarrow> real" where
  "pm_term2 delta_svp psy ra0 rs0 = delta_svp + psy * (1 + rs0 / ra0)"

definition pm_closed_form ::
  "real \<Rightarrow> real \<Rightarrow> real \<Rightarrow> real \<Rightarrow> real \<Rightarrow> real \<Rightarrow> real \<Rightarrow> real \<Rightarrow> real \<Rightarrow> real \<Rightarrow> real \<Rightarrow> real" where
  "pm_closed_form lat0 net_rad svp avp delta_svp psy ra0 pa0 rs0 cp shf =
     (pm_term1 net_rad svp avp delta_svp ra0 pa0 cp shf / pm_term2 delta_svp psy ra0 rs0)
       * (1 / lat0) * 86400"

text \<open>
  The specification's aerodynamic resistance:
  ra = [ln((zm - d) / zom) ln((zh - d) / zoh)] / (k squared times ws).
\<close>

definition ra_closed_form :: "real \<Rightarrow> real \<Rightarrow> real \<Rightarrow> real \<Rightarrow> real \<Rightarrow> real \<Rightarrow> real \<Rightarrow> real" where
  "ra_closed_form d0 zom0 zoh0 ws zh zm k =
     (ln ((zm - d0) / zom0) * ln ((zh - d0) / zoh0)) / (k ^ 2 * ws)"

section \<open>Properties\<close>

subsection \<open>Shared facts about the runtime operations\<close>

lemma py_div_nonzero: "b \<noteq> 0 \<Longrightarrow> py_div a b = Inr (a / b)"
  by (simp add: py_div_def)

lemma py_div_zero: "py_div a 0 = Inl ZeroDivisionError"
  by (simp add: py_div_def)

lemma powi_milli: "(10::real) powi (-3) = 1 / 1000"
  by (simp add: power_int_minus)

text \<open>
  Every outcome of \<open>ra\<close>: the two scalar quotients raise on a zero roughness
  length; otherwise the result is finite exactly when both logarithm arguments are
  positive and the divisor \<open>k**2 * ws\<close> is not zero.
\<close>

lemma ra_cases:
  fixes d0 zom0 zoh0 ws h zh zm k :: real
  shows "ra d0 zom0 zoh0 ws h zh zm k =
    (if zom0 = 0 \<or> zoh0 = 0 then Inl ZeroDivisionError
     else if 0 < (zm - d0) / zom0 \<and> 0 < (zh - d0) / zoh0 \<and> k \<noteq> 0 \<and> ws \<noteq> 0
       then Inr (Finite (ra_closed_form d0 zom0 zoh0 ws zh zm k))
       else Inr NonFinite)"
  by (auto simp add: ra_def py_div_def np_log_def ra_closed_form_def)

subsection \<open>The combiner computes the closed form\<close>

text \<open>
  C1. When \<open>ra\<close>, \<open>lat\<close> and \<open>delta_svp + psy (1 + rs / ra)\<close> are not zero,
  \<open>penman_monteith\<close> returns (term1 / term2) (1 / lat) 86400 with term1 and term2 as
  the specification writes them. For the literal inputs lat = 2.45, net_rad = 15,
  t = 20, ws = 2, svp = 2.4, avp = 1.4, delta_svp = 0.15, psy = 0.067, ra = 50,
  pa = 1.2, pres = 101.3, rs = 70, cp = 0.001013, shf = 0 (and any \<open>d\<close>) the call
  returns 1812732 / 317275 (about 5.7134), which is the closed form evaluated
  directly, so the two agree within a relative tolerance of 1e-9.
\<close>

theorem penman_monteith_closed_form:
  fixes lat net_rad t ws svp avp delta_svp d psy ra pa pres rs cp shf :: real
  assumes "ra \<noteq> 0" and "lat \<noteq> 0" and "delta_svp + psy * (1 + rs / ra) \<noteq> 0"
  shows "penman_monteith lat net_rad t ws svp avp delta_svp d psy ra pa pres rs cp shf =
           Inr (pm_closed_form lat net_rad svp avp delta_svp psy ra pa rs cp shf)
         \<and> (\<exists>v. penman_monteith 2.45 15 20 2 2.4 1.4 0.15 d 0.067 50 1.2 101.3 70 0.001013 0 = Inr v
               \<and> v = 1812732 / 317275
               \<and> \<bar>v - pm_closed_form 2.45 15 2.4 1.4 0.15 0.067 50 1.2 70 0.001013 0\<bar>
                   \<le> 1 / 10 ^ 9 * \<bar>pm_closed_form 2.45 15 2.4 1.4 0.15 0.067 50 1.2 70 0.001013 0\<bar>)"
proof
  show "penman_monteith lat net_rad t ws svp avp delta_svp d psy ra pa pres rs cp shf =
           Inr (pm_closed_form lat net_rad svp avp delta_svp psy ra pa rs cp shf)"
    using assms
    by (simp add: penman_monteith_def py_div_nonzero pm_closed_form_def pm_term1_def
        pm_term2_def Let_def)
next
  have c: "pm_closed_form 2.45 15 2.4 1.4 0.15 0.067 50 1.2 70 0.001013 0 = 1812732 / 317275"
    by (simp add: pm_closed_form_def pm_term1_def pm_term2_def)
  have p: "penman_monteith 2.45 15 20 2 2.4 1.4 0.15 d 0.067 50 1.2 101.3 70 0.001013 0
             = Inr (1812732 / 317275)"
    by (simp add: penman_monteith_def py_div_def Let_def)
  show "\<exists>v. penman_monteith 2.45 15 20 2 2.4 1.4 0.15 d 0.067 50 1.2 101.3 70 0.001013 0 = Inr v
               \<and> v = 1812732 / 317275
               \<and> \<bar>v - pm_closed_form 2.45 15 2.4 1.4 0.15 0.067 50 1.2 70 0.001013 0\<bar>
                   \<le> 1 / 10 ^ 9 * \<bar>pm_closed_form 2.45 15 2.4 1.4 0.15 0.067 50 1.2 70 0.001013 0\<bar>"
    unfolding c p by (intro exI [of _ "1812732 / 317275"]) simp
qed

theorem penman_monteith_closed_form_witness:
  "(50::real) \<noteq> 0 \<and> (2.45::real) \<noteq> 0 \<and> (0.15::real) + 0.067 * (1 + 70 / 50) \<noteq> 0
   \<and> penman_monteith 2.45 15 20 2 2.4 1.4 0.15 0.08 0.067 50 1.2 101.3 70 0.001013 0 =
       Inr (pm_closed_form 2.45 15 2.4 1.4 0.15 0.067 50 1.2 70 0.001013 0)"
proof -
  have h1: "(50::real) \<noteq> 0" and h2: "(2.45::real) \<noteq> 0"
    and h3: "(0.15::real) + 0.067 * (1 + 70 / 50) \<noteq> 0"
    by simp_all
  have "penman_monteith 2.45 15 20 2 2.4 1.4 0.15 0.08 0.067 50 1.2 101.3 70 0.001013 0 =
       Inr (pm_closed_form 2.45 15 2.4 1.4 0.15 0.067 50 1.2 70 0.001013 0)"
    by (rule conjunct1 [OF penman_monteith_closed_form [OF h1 h2 h3]])
  then show ?thesis using h1 h2 h3 by blast
qed

subsection \<open>Aerodynamic resistance on its physical domain\<close>

text \<open>
  With a von Karman constant of zero the divisor \<open>k**2 * ws\<close> is zero although every
  height, roughness length and the wind speed are positive: the call returns a
  non-finite float, not the value of the closed form.
\<close>

theorem ra_zero_k_counterexample:
  "(10::real) - 0.08 > 0 \<and> (2::real) - 0.08 > 0 \<and> (0.01476::real) > 0 \<and> (0.001476::real) > 0
   \<and> (2::real) > 0
   \<and> ra 0.08 0.01476 0.001476 2 0.12 2 10 0 = Inr NonFinite
   \<and> ra 0.08 0.01476 0.001476 2 0.12 2 10 0
        \<noteq> Inr (Finite (ra_closed_form 0.08 0.01476 0.001476 2 2 10 0))"
  by (simp add: ra_def py_div_def np_log_def)

text \<open>
  C2 (amended). For zm - d > 0, zh - d > 0, zom > 0, zoh > 0, ws > 0 and k not zero,
  \<open>ra\<close> returns the finite value
  [ln((zm - d) / zom) ln((zh - d) / zoh)] / (k squared times ws), whatever \<open>h\<close> is.
  With h = 0.12 (so d = 0.08, zom = 0.01476, zoh = 0.001476), ws = 2, zm = 10, zh = 2
  and k = 0.41 the call returns exactly the closed form.
\<close>

theorem ra_closed_form_positive:
  fixes d0 zom0 zoh0 ws h zh zm k :: real
  assumes "zm - d0 > 0" and "zh - d0 > 0" and "zom0 > 0" and "zoh0 > 0" and "ws > 0"
    and "k \<noteq> 0"
  shows "ra d0 zom0 zoh0 ws h zh zm k = Inr (Finite (ra_closed_form d0 zom0 zoh0 ws zh zm k))"
  using assms by (simp add: ra_cases)

theorem ra_closed_form_positive_witness:
  "(10::real) - 0.08 > 0 \<and> (2::real) - 0.08 > 0 \<and> (0.01476::real) > 0 \<and> (0.001476::real) > 0
   \<and> (2::real) > 0 \<and> (0.41::real) \<noteq> 0
   \<and> d 0.12 = Inr 0.08 \<and> zom 0.12 = Inr 0.01476 \<and> zoh 0.01476 = Inr 0.001476
   \<and> ra 0.08 0.01476 0.001476 2 0.12 2 10 0.41 =
       Inr (Finite (ln ((10 - 0.08) / 0.01476) * ln ((2 - 0.08) / 0.001476) / (0.41 ^ 2 * 2)))"
proof -
  have g: "d 0.12 = Inr 0.08 \<and> zom 0.12 = Inr 0.01476 \<and> zoh 0.01476 = Inr 0.001476"
    by (simp add: d_def zom_def zoh_def)
  have "ra 0.08 0.01476 0.001476 2 0.12 2 10 0.41 =
          Inr (Finite (ra_closed_form 0.08 0.01476 0.001476 2 2 10 0.41))"
    by (rule ra_closed_form_positive) simp_all
  then show ?thesis using g by (simp add: ra_closed_form_def)
qed

subsection \<open>Canopy geometry\<close>

text \<open>
  C3. For every crop height h \<ge> 0 the geometry functions are the linear transforms
  zom(h) = 0.123 h, d(h) = (2/3) h, zoh(zom(h)) = 0.1 zom(h), LAI(h) = 24 h and
  LAIactive(LAI(h)) = 0.5 LAI(h), each returned without an exception; at h = 0 all
  five return zero.
\<close>

theorem canopy_geometry_linear:
  fixes h :: real
  assumes "0 \<le> h"
  shows "zom h = Inr (0.123 * h) \<and> d h = Inr (2 / 3 * h)
         \<and> zoh (0.123 * h) = Inr (0.1 * (0.123 * h))
         \<and> LAI h = Inr (24 * h)
         \<and> LAIactive (24 * h) = Inr (0.5 * (24 * h))
         \<and> zom 0 = Inr 0 \<and> d 0 = Inr 0 \<and> zoh 0 = Inr 0 \<and> LAI 0 = Inr 0 \<and> LAIactive 0 = Inr 0"
  by (simp add: zom_def d_def zoh_def LAI_def LAIactive_def)

theorem canopy_geometry_linear_witness:
  "(0::real) \<le> 0.12 \<and> zom 0.12 = Inr 0.01476 \<and> d 0.12 = Inr 0.08
   \<and> LAI 0.12 = Inr 2.88 \<and> zoh 0.01476 = Inr 0.001476 \<and> LAIactive 2.88 = Inr 1.44"
proof -
  have h: "(0::real) \<le> 0.12" by simp
  from canopy_geometry_linear [OF h]
  have "zom 0.12 = Inr (0.123 * 0.12) \<and> d 0.12 = Inr (2 / 3 * 0.12)
        \<and> LAI 0.12 = Inr (24 * 0.12)" by blast
  then show ?thesis by (simp add: zoh_def LAIactive_def)
qed

subsection \<open>Surface resistance\<close>

text \<open>
  A negative active leaf area index is divided by like any other number: the call
  returns the (negative) quotient and raises nothing.
\<close>

theorem rs_negative_counterexample:
  "(-1::real) \<le> 0 \<and> rs (-1) 100 = Inr (-100) \<and> rs (-1) 100 \<noteq> Inl DomainError"
  by (simp add: rs_def py_div_def)

text \<open>
  C4 (amended). \<open>rs\<close> returns rl / LAIactive for every LAIactive other than zero,
  negative values included; at LAIactive = 0 the scalar division raises
  \<open>ZeroDivisionError\<close> for every rl. No call raises a \<open>DomainError\<close>.
\<close>

theorem rs_outcomes:
  fixes la rl :: real
  shows "rs la rl = (if la = 0 then Inl ZeroDivisionError else Inr (rl / la))
         \<and> rs la rl \<noteq> Inl DomainError"
  by (simp add: rs_def py_div_def)

theorem rs_outcomes_witness:
  "rs 1.44 100 = Inr (100 / 1.44) \<and> rs 0 100 = Inl ZeroDivisionError
   \<and> rs (-1.44) 100 = Inr (- (100 / 1.44))"
  using rs_outcomes [of "1.44" 100] rs_outcomes [of 0 100] rs_outcomes [of "-1.44" 100]
  by simp

subsection \<open>Aerodynamic resistance outside its physical domain\<close>

text \<open>
  In calm air (ws = 0) over the reference grass, and with a displacement height
  above both measurement heights (d = 20), the call returns a non-finite float.
\<close>

theorem ra_calm_counterexample:
  "ra 0.08 0.01476 0.001476 0 0.12 2 10 0.41 = Inr NonFinite
   \<and> ra 0.08 0.01476 0.001476 0 0.12 2 10 0.41 \<noteq> Inl DomainError
   \<and> (10::real) - 20 \<le> 0 \<and> (2::real) - 20 \<le> 0
   \<and> ra 20 0.01476 0.001476 2 0.12 2 10 0.41 = Inr NonFinite
   \<and> ra 20 0.01476 0.001476 2 0.12 2 10 0.41 \<noteq> Inl DomainError"
  by (simp add: ra_def py_div_def np_log_def)

text \<open>
  C5 (amended). \<open>ra\<close> never raises a \<open>DomainError\<close>. On scalar inputs it raises
  \<open>ZeroDivisionError\<close> exactly when zom = 0 or zoh = 0. Otherwise it returns a
  float: the finite closed form when (zm - d) / zom > 0, (zh - d) / zoh > 0, k is
  not zero and ws is not zero, and a non-finite value (nan, inf or -inf) in every
  other case, among them ws = 0 and, for positive roughness lengths, zm \<le> d or
  zh \<le> d.
\<close>

theorem ra_outcomes:
  fixes d0 zom0 zoh0 ws h zh zm k :: real
  shows "ra d0 zom0 zoh0 ws h zh zm k \<noteq> Inl DomainError
    \<and> ra d0 zom0 zoh0 ws h zh zm k =
       (if zom0 = 0 \<or> zoh0 = 0 then Inl ZeroDivisionError
        else if 0 < (zm - d0) / zom0 \<and> 0 < (zh - d0) / zoh0 \<and> k \<noteq> 0 \<and> ws \<noteq> 0
          then Inr (Finite (ra_closed_form d0 zom0 zoh0 ws zh zm k))
          else Inr NonFinite)"
  by (simp add: ra_cases)

theorem ra_outcomes_witness:
  "ra 0.08 0.01476 0.001476 0 0.12 2 10 0.41 = Inr NonFinite
   \<and> ra 0.08 0 0.001476 2 0.12 2 10 0.41 = Inl ZeroDivisionError
   \<and> ra 20 (-1) (-1) 2 0.12 2 10 0.41 = Inr (Finite (ln 10 * ln 18 / (0.41 ^ 2 * 2)))"
  using ra_outcomes [of "0.08" "0.01476" "0.001476" 0 "0.12" 2 10 "0.41"]
    ra_outcomes [of "0.08" 0 "0.001476" 2 "0.12" 2 10 "0.41"]
    ra_outcomes [of 20 "-1" "-1" 2 "0.12" 2 10 "0.41"]
  by (simp add: ra_closed_form_def)

subsection \<open>The combiner at zero aerodynamic resistance\<close>

text \<open>
  With ra = 0 supplied directly, the first division of the body raises
  \<open>ZeroDivisionError\<close>; that is not a \<open>DomainError\<close>.
\<close>

theorem penman_monteith_zero_ra_counterexample:
  "penman_monteith 2.45 15 20 2 2.4 1.4 0.15 0.08 0.067 0 1.2 101.3 70 0.001013 0
     = Inl ZeroDivisionError
   \<and> penman_monteith 2.45 15 20 2 2.4 1.4 0.15 0.08 0.067 0 1.2 101.3 70 0.001013 0
     \<noteq> Inl DomainError"
  by (simp add: penman_monteith_def py_div_zero)

text \<open>
  C6 (amended). For every scalar input with ra = 0, \<open>penman_monteith\<close> computes no
  result and propagates no infinity: the division (svp - avp) / ra raises
  \<open>ZeroDivisionError\<close>. The body has no check of its own on \<open>ra\<close>.
\<close>

theorem penman_monteith_zero_ra:
  fixes lat net_rad t ws svp avp delta_svp d psy pa pres rs cp shf :: real
  shows "penman_monteith lat net_rad t ws svp avp delta_svp d psy 0 pa pres rs cp shf
           = Inl ZeroDivisionError"
  by (simp add: penman_monteith_def py_div_zero)

subsection \<open>Latent heat and air density\<close>

text \<open>
  C7. For every temperature t, \<open>lat\<close> returns 2.501 - 0.002361 t; for every
  pres > 0 and t > -273, \<open>pa\<close> returns pres / (1.01 (t + 273) 0.287).
\<close>

theorem air_properties:
  fixes t pres :: real
  shows "lat t = Inr (2.501 - 0.002361 * t)
    \<and> (0 < pres \<and> -273 < t \<longrightarrow> pa pres t = Inr (pres / (1.01 * (t + 273) * 0.287)))"
  by (simp add: lat_def pa_def py_div_def powi_milli)

theorem air_properties_witness:
  "(0::real) < 101.3 \<and> (-273::real) < 20 \<and> lat 20 = Inr 2.45378
   \<and> pa 101.3 20 = Inr (101.3 / (1.01 * (20 + 273) * 0.287))"
  using air_properties [of 20 "101.3"] by simp

text \<open>
  At 2000 degrees the latent heat comes out negative and is returned; a negative
  pressure below absolute zero gives a density; only t = -273 itself raises, and
  then \<open>ZeroDivisionError\<close>.
\<close>

theorem air_properties_unguarded_counterexample:
  "(2.501::real) - 0.002361 * 2000 \<le> 0 \<and> lat 2000 = Inr (- 2.221) \<and> lat 2000 \<noteq> Inl DomainError
   \<and> (-300::real) \<le> -273 \<and> (-1::real) \<le> 0 \<and> pa (-1) (-300) \<noteq> Inl DomainError
   \<and> pa 101.3 (-273) = Inl ZeroDivisionError"
  by (simp add: lat_def pa_def py_div_def powi_milli)

text \<open>
  C8 (amended). Neither function raises a \<open>DomainError\<close>. \<open>lat\<close> returns
  2.501 - 0.002361 t for every t, also where that value is zero or negative.
  \<open>pa\<close> returns pres / (1.01 (t + 273) 0.287) for every pres and every t other
  than -273, also for pres \<le> 0 and t < -273; at t = -273 the scalar division
  raises \<open>ZeroDivisionError\<close>.
\<close>

theorem air_properties_outcomes:
  fixes t pres :: real
  shows "lat t = Inr (2.501 - 0.002361 * t)
    \<and> pa pres t = (if t = -273 then Inl ZeroDivisionError
                    else Inr (pres / (1.01 * (t + 273) * 0.287)))
    \<and> lat t \<noteq> Inl DomainError \<and> pa pres t \<noteq> Inl DomainError"
  by (simp add: lat_def pa_def py_div_def powi_milli)

theorem air_properties_outcomes_witness:
  "lat 2000 = Inr (- 2.221) \<and> pa 101.3 (-273) = Inl ZeroDivisionError
   \<and> pa (-1) 20 = Inr (- 1 / (1.01 * (20 + 273) * 0.287))"
  using air_properties_outcomes [of 2000 "101.3"] air_properties_outcomes [of "-273" "101.3"]
    air_properties_outcomes [of 20 "-1"]
  by simp

subsection \<open>Default arguments\<close>

text \<open>
  \<open>rs\<close> called without \<open>rl\<close> raises \<open>TypeError\<close>; it does not behave as if 100
  had been passed.
\<close>

theorem rs_default_counterexample:
  "rs_call 1.44 None = Inl TypeError \<and> rs_call 1.44 None \<noteq> rs 1.44 100"
  by (simp add: rs_call_def rs_def py_div_def)

text \<open>
  C9 (amended). The defaults of the signatures are: h = 0.12 in \<open>d\<close>, \<open>zom\<close>, \<open>LAI\<close> and
  \<open>ra\<close>; zh = 2, zm = 10 and k = 0.41 in \<open>ra\<close>; rs = 78, cp = 0.001013 and shf = 0 in
  \<open>penman_monteith\<close>. A call that omits any of these behaves as the call that
  passes the listed value. \<open>rs\<close> has no default for \<open>rl\<close>: a call that omits it
  raises \<open>TypeError\<close>.
\<close>

theorem default_arguments:
  fixes lat net_rad t ws svp avp delta_svp d0 psy ra0 pa pres zom0 zoh0 la :: real
  shows "d_call None = d 0.12 \<and> zom_call None = zom 0.12 \<and> LAI_call None = LAI 0.12
    \<and> ra_call d0 zom0 zoh0 ws None zh zm k
        = ra_call d0 zom0 zoh0 ws (Some 0.12) zh zm k
    \<and> ra_call d0 zom0 zoh0 ws h None zm k = ra_call d0 zom0 zoh0 ws h (Some 2) zm k
    \<and> ra_call d0 zom0 zoh0 ws h zh None k = ra_call d0 zom0 zoh0 ws h zh (Some 10) k
    \<and> ra_call d0 zom0 zoh0 ws h zh zm None = ra_call d0 zom0 zoh0 ws h zh zm (Some 0.41)
    \<and> ra_call d0 zom0 zoh0 ws None None None None = ra d0 zom0 zoh0 ws 0.12 2 10 0.41
    \<and> penman_monteith_call lat net_rad t ws svp avp delta_svp d0 psy ra0 pa pres None cp shf
        = penman_monteith_call lat net_rad t ws svp avp delta_svp d0 psy ra0 pa pres (Some 78) cp shf
    \<and> penman_monteith_call lat net_rad t ws svp avp delta_svp d0 psy ra0 pa pres rs0 None shf
        = penman_monteith_call lat net_rad t ws svp avp delta_svp d0 psy ra0 pa pres rs0
            (Some 0.001013) shf
    \<and> penman_monteith_call lat net_rad t ws svp avp delta_svp d0 psy ra0 pa pres rs0 cp None
        = penman_monteith_call lat net_rad t ws svp avp delta_svp d0 psy ra0 pa pres rs0 cp (Some 0)
    \<and> penman_monteith_call lat net_rad t ws svp avp delta_svp d0 psy ra0 pa pres None None None
        = penman_monteith lat net_rad t ws svp avp delta_svp d0 psy ra0 pa pres 78 0.001013 0
    \<and> rs_call la (Some rl) = rs la rl
    \<and> rs_call la None = Inl TypeError"
  by (simp add: d_call_def zom_call_def LAI_call_def ra_call_def penman_monteith_call_def
      rs_call_def arg_or_def)

subsection \<open>Parameters the combiner does not read\<close>

text \<open>
  C10. The result of \<open>penman_monteith\<close> does not depend on \<open>t\<close>, \<open>ws\<close>, \<open>d\<close> and
  \<open>pres\<close>: two calls that agree on the other eleven arguments have the same
  outcome, whether a value or an exception.
\<close>

theorem penman_monteith_unused_parameters:
  fixes lat net_rad t ws svp avp delta_svp d psy ra pa pres rs cp shf t' ws' d' pres' :: real
  shows "penman_monteith lat net_rad t ws svp avp delta_svp d psy ra pa pres rs cp shf =
     penman_monteith lat net_rad t' ws' svp avp delta_svp d' psy ra pa pres' rs cp shf"
  by (simp add: penman_monteith_def)

end
